theory Spec2Isabelle
  imports Complex_Main
begin

section \<open>Client: the player motion state machine (client/src/engine/Player.ts)\<close>

text \<open>
  \<^verbatim>\<open>type Direction = 0 | 1 | 2 | 3; // 0=down, 1=left, 2=right, 3=up\<close>
  The four-valued union is a datatype; \<open>direction_code\<close> gives the number the source
  (and the wire protocol) uses for each value.
\<close>

datatype Direction = DirDown | DirLeft | DirRight | DirUp

fun direction_code :: "Direction \<Rightarrow> nat" where
  "direction_code DirDown = 0"
| "direction_code DirLeft = 1"
| "direction_code DirRight = 2"
| "direction_code DirUp = 3"

text \<open>
  One call of the \<open>onMove\<close> callback: \<open>onMove(x, y, direction, isMoving)\<close>.
  The callback is a late-bound optional field of the class; the model records whether it
  is set (\<open>onMove_set\<close>) and returns the calls an operation makes, in order.
\<close>

record MoveEvent =
  ev_x :: int
  ev_y :: int
  ev_direction :: Direction
  ev_isMoving :: bool

text \<open>
  The fields of class \<open>Player\<close>. Grid coordinates are integers; the JavaScript numbers
  that hold progress and timers are read as reals. The image handle \<open>sprite\<close> plays no
  part in the state machine and is left out. The fields \<open>x\<close> and \<open>y\<close> of the source are
  \<open>px\<close> and \<open>py\<close> here.
\<close>

record Player =
  px :: int
  py :: int
  tileSize :: int
  isMoving :: bool
  moveProgress :: real
  moveSpeed :: real
  targetX :: int
  targetY :: int
  direction :: Direction
  animationFrame :: nat
  animationTimer :: real
  frameInterval :: real
  animationSpeed :: real
  spriteWidth :: int
  spriteHeight :: int
  onMove_set :: bool

text \<open>The constructor \<open>new Player(x, y, sprite, tileSize)\<close>; no callback is set yet.\<close>

definition Player_new :: "int \<Rightarrow> int \<Rightarrow> int \<Rightarrow> Player" where
  "Player_new x0 y0 ts =
     \<lparr> px = x0, py = y0, tileSize = ts,
       isMoving = False, moveProgress = 0, moveSpeed = 4.5,
       targetX = x0, targetY = y0,
       direction = DirDown,
       animationFrame = 0, animationTimer = 0, frameInterval = 0.12, animationSpeed = 0.1,
       spriteWidth = 32, spriteHeight = 48,
       onMove_set = False \<rparr>"

definition setOnMove :: "Player \<Rightarrow> Player" where
  "setOnMove p = p\<lparr>onMove_set := True\<rparr>"

text \<open>
  \<open>startMove(dx, dy)\<close>: the result is the returned boolean, the player after the call
  and the callback calls made.
\<close>

definition startMove :: "Player \<Rightarrow> int \<Rightarrow> int \<Rightarrow> bool \<times> Player \<times> MoveEvent list" where
  "startMove p dx dy =
     (if isMoving p then (False, p, [])
      else
        let d = (if dy > 0 then DirDown
                 else if dy < 0 then DirUp
                 else if dx < 0 then DirLeft
                 else if dx > 0 then DirRight
                 else direction p);
            p' = p\<lparr> direction := d,
                    targetX := px p + dx,
                    targetY := py p + dy,
                    isMoving := True,
                    moveProgress := 0 \<rparr>
        in (True, p',
            if onMove_set p'
            then [\<lparr> ev_x = px p', ev_y = py p', ev_direction = direction p', ev_isMoving = True \<rparr>]
            else []))"

text \<open>\<open>update(deltaTime)\<close>: the player after the call and the callback calls made.\<close>

definition update :: "Player \<Rightarrow> real \<Rightarrow> Player \<times> MoveEvent list" where
  "update p deltaTime =
     (if isMoving p then
        let p1 = p\<lparr> moveProgress := moveProgress p + moveSpeed p * deltaTime \<rparr>
        in if moveProgress p1 \<ge> 1 then
             let p2 = p1\<lparr> px := targetX p1,
                          py := targetY p1,
                          isMoving := False,
                          moveProgress := 0,
                          animationFrame := 0 \<rparr>
             in (p2,
                 if onMove_set p2
                 then [\<lparr> ev_x = px p2, ev_y = py p2, ev_direction = direction p2, ev_isMoving = False \<rparr>]
                 else [])
           else
             let p2 = p1\<lparr> animationTimer := animationTimer p1 + deltaTime \<rparr>
             in (if animationTimer p2 \<ge> frameInterval p2
                 then p2\<lparr> animationTimer := 0, animationFrame := (animationFrame p2 + 1) mod 4 \<rparr>
                 else p2,
                 [])
      else (p, []))"

text \<open>The default argument of \<open>update(deltaTime = 0.016)\<close>.\<close>

definition update_default :: "Player \<Rightarrow> Player \<times> MoveEvent list" where
  "update_default p = update p 0.016"

text \<open>\<open>setState(x, y, direction, isMoving)\<close>: the state a network message imposes.\<close>

definition setState :: "Player \<Rightarrow> int \<Rightarrow> int \<Rightarrow> Direction \<Rightarrow> bool \<Rightarrow> Player" where
  "setState p x0 y0 d m =
     (let p1 = (if m \<and> \<not> isMoving p
                then p\<lparr> moveProgress := 0, animationFrame := 0, animationTimer := 0 \<rparr>
                else p);
          p2 = p1\<lparr> px := x0, py := y0, direction := d, isMoving := m \<rparr>
      in if m
         then p2\<lparr> targetX := (if d = DirRight then x0 + 1 else if d = DirLeft then x0 - 1 else x0),
                  targetY := (if d = DirDown then y0 + 1 else if d = DirUp then y0 - 1 else y0) \<rparr>
         else p2\<lparr> targetX := x0, targetY := y0 \<rparr>)"

text \<open>
  The operations the claims range over, and a run of them on one player. The callback
  calls of a run are dropped: the invariant below is about the player only.
\<close>

datatype PlayerOp = StartMove int int | Update real | SetState int int Direction bool

fun apply_op :: "Player \<Rightarrow> PlayerOp \<Rightarrow> Player" where
  "apply_op p (StartMove dx dy) = fst (snd (startMove p dx dy))"
| "apply_op p (Update dt) = fst (update p dt)"
| "apply_op p (SetState x0 y0 d m) = setState p x0 y0 d m"

definition run_ops :: "Player \<Rightarrow> PlayerOp list \<Rightarrow> Player" where
  "run_ops p ops = foldl apply_op p ops"

text \<open>The inputs the claim allows: a unit delta, a non-negative elapsed time.\<close>

fun unit_delta :: "int \<Rightarrow> int \<Rightarrow> bool" where
  "unit_delta dx dy = ((dx = 0 \<and> (dy = 1 \<or> dy = - 1)) \<or> ((dx = 1 \<or> dx = - 1) \<and> dy = 0))"

fun allowed_op :: "PlayerOp \<Rightarrow> bool" where
  "allowed_op (StartMove dx dy) = unit_delta dx dy"
| "allowed_op (Update dt) = (0 \<le> dt)"
| "allowed_op (SetState x0 y0 d m) = True"

text \<open>
  The motion invariant: a moving player's target is one tile from its position along
  exactly one axis, an idle player's target is its position.
\<close>

definition one_tile_away :: "Player \<Rightarrow> bool" where
  "one_tile_away p =
     ((targetX p = px p \<and> \<bar>targetY p - py p\<bar> = 1) \<or>
      (targetY p = py p \<and> \<bar>targetX p - px p\<bar> = 1))"

definition motion_inv :: "Player \<Rightarrow> bool" where
  "motion_inv p = (if isMoving p then one_tile_away p else targetX p = px p \<and> targetY p = py p)"

section \<open>Client: tile resolution and autotiles (client/src/engine/map/MapRenderer.ts)\<close>

text \<open>
  \<^verbatim>\<open>type Layer = number[][]\<close>, indexed \<open>layer[y][x]\<close>. Tile IDs and coordinates are
  integers. Reading a JavaScript array outside its bounds gives \<open>undefined\<close>, which is
  \<open>None\<close> here.
\<close>

type_synonym Layer = "int list list"

definition array_get :: "'a list \<Rightarrow> int \<Rightarrow> 'a option" where
  "array_get xs i = (if 0 \<le> i \<and> i < int (length xs) then Some (xs ! nat i) else None)"

text \<open>
  JavaScript's \<open>a % b\<close> on integers takes the sign of the dividend;
  \<open>Math.floor(a / b)\<close> on integers with \<open>b > 0\<close> is HOL's \<open>div\<close>.
\<close>

definition js_rem :: "int \<Rightarrow> int \<Rightarrow> int" where
  "js_rem a b = (if 0 \<le> a then a mod \<bar>b\<bar> else - ((- a) mod \<bar>b\<bar>))"

text \<open>An image is known to the renderer by its identity and its pixel dimensions.\<close>

record Image =
  img_id :: nat
  img_width :: int
  img_height :: int

text \<open>
  \<open>interface MapData\<close> and the fields of class \<open>MapRenderer\<close> that tile resolution
  reads. \<open>autotiles\<close> is filled by index and may have holes, hence the options. The
  source's \<open>tileSize\<close> and \<open>animationFrame\<close> are \<open>mr_tileSize\<close> and
  \<open>mr_animationFrame\<close> here.
\<close>

record MapData =
  md_width :: int
  md_height :: int
  md_layers :: "Layer list"

record MapRenderer =
  autotiles :: "Image option list"
  mr_tileSize :: int
  width :: int
  height :: int
  layers :: "Layer list"
  tilesetColumns :: int
  mr_animationFrame :: nat

definition MapRenderer_new :: "MapData \<Rightarrow> int \<Rightarrow> Image option list \<Rightarrow> MapRenderer" where
  "MapRenderer_new mapData ts autos =
     \<lparr> autotiles = autos,
       mr_tileSize = ts,
       width = md_width mapData,
       height = md_height mapData,
       layers = md_layers mapData,
       tilesetColumns = 8,
       mr_animationFrame = 0 \<rparr>"

text \<open>\<^verbatim>\<open>const TILE_SIZE = 32;\<close> (GameScreen.tsx), the size the game passes to the constructor.\<close>

definition TILE_SIZE :: int where
  "TILE_SIZE = 32"

text \<open>The timer callback of \<open>startAnimationLoop\<close>, every 500 ms.\<close>

definition animation_tick :: "MapRenderer \<Rightarrow> MapRenderer" where
  "animation_tick r = r\<lparr> mr_animationFrame := (mr_animationFrame r + 1) mod 4 \<rparr>"

text \<open>
  \<open>interface TileCoords\<close>: the optional fields are options, the optional flag
  \<open>isRMXPAutotile\<close> is \<open>False\<close> when absent (the source only tests its truthiness).
  The fields \<open>x\<close>, \<open>y\<close> and \<open>tileId\<close> are \<open>tc_x\<close>, \<open>tc_y\<close> and \<open>tc_tileId\<close>.
\<close>

record TileCoords =
  tc_x :: int
  tc_y :: int
  sourceImage :: "Image option"
  isRMXPAutotile :: bool
  tc_tileId :: "int option"
  mapX :: "int option"
  mapY :: "int option"

definition plain_coords :: "int \<Rightarrow> int \<Rightarrow> Image option \<Rightarrow> TileCoords" where
  "plain_coords cx cy img =
     \<lparr> tc_x = cx, tc_y = cy, sourceImage = img, isRMXPAutotile = False,
       tc_tileId = None, mapX = None, mapY = None \<rparr>"

text \<open>\<open>getAutotileCoords(tileId, x?, y?)\<close>.\<close>

definition getAutotileCoords :: "MapRenderer \<Rightarrow> int \<Rightarrow> int option \<Rightarrow> int option \<Rightarrow> TileCoords option" where
  "getAutotileCoords r tileId x y =
     (let autotileSlot = tileId div 48;
          autotileVariation = js_rem tileId 48
      in case array_get (autotiles r) autotileSlot of
           None \<Rightarrow> Some (plain_coords 0 0 None)
         | Some None \<Rightarrow> Some (plain_coords 0 0 None)
         | Some (Some autotileImage) \<Rightarrow>
             if img_width autotileImage = 128 \<and> img_height autotileImage = 32 then
               Some (plain_coords (int (mr_animationFrame r mod 4) * mr_tileSize r) 0 (Some autotileImage))
             else if img_width autotileImage = 96 \<and> img_height autotileImage = 128 then
               Some \<lparr> tc_x = 0, tc_y = 0, sourceImage = Some autotileImage, isRMXPAutotile = True,
                      tc_tileId = Some tileId, mapX = x, mapY = y \<rparr>
             else
               Some (plain_coords 0 0 (Some autotileImage)))"

text \<open>\<open>getTileCoords(tileId, x?, y?)\<close>; \<open>None\<close> is the source's \<open>null\<close>.\<close>

definition getTileCoords :: "MapRenderer \<Rightarrow> int \<Rightarrow> int option \<Rightarrow> int option \<Rightarrow> TileCoords option" where
  "getTileCoords r tileId x y =
     (if tileId = 0 then None
      else if tileId < 384 then getAutotileCoords r tileId x y
      else
        let tilesetIndex = tileId - 384;
            col = js_rem tilesetIndex (tilesetColumns r);
            row = tilesetIndex div tilesetColumns r
        in Some (plain_coords (col * mr_tileSize r) (row * mr_tileSize r) None))"

text \<open>
  \<open>getTileIdAt(x, y)\<close>. The loop runs \<open>layerIndex\<close> from \<open>layers.length - 1\<close> down to 0;
  \<open>getTileIdAt_scan ls n\<close> is the loop with \<open>n\<close> layers still to visit, so it looks at
  \<open>ls ! (n - 1)\<close> next. A missing row, a missing cell and a cell holding 0 are all
  skipped by \<open>continue\<close>.
\<close>

fun getTileIdAt_scan :: "Layer list \<Rightarrow> nat \<Rightarrow> int \<Rightarrow> int \<Rightarrow> int" where
  "getTileIdAt_scan ls 0 x y = 0"
| "getTileIdAt_scan ls (Suc layerIndex) x y =
     (case array_get (ls ! layerIndex) y of
        None \<Rightarrow> getTileIdAt_scan ls layerIndex x y
      | Some row \<Rightarrow>
          (case array_get row x of
             None \<Rightarrow> getTileIdAt_scan ls layerIndex x y
           | Some tileId \<Rightarrow>
               if tileId = 0 then getTileIdAt_scan ls layerIndex x y else tileId))"

definition getTileIdAt :: "MapRenderer \<Rightarrow> int \<Rightarrow> int \<Rightarrow> int" where
  "getTileIdAt r x y =
     (if x < 0 \<or> x \<ge> width r \<or> y < 0 \<or> y \<ge> height r then - 1
      else getTileIdAt_scan (layers r) (length (layers r)) x y)"

text \<open>
  The eight neighbour flags that \<open>renderRMXPAutotile(ctx, autotileImage, tileId, x, y, ...)\<close>
  computes before it classifies the quadrants.
\<close>

record NeighborFlags =
  hasUp :: bool
  hasRight :: bool
  hasDown :: bool
  hasLeft :: bool
  hasUpLeft :: bool
  hasUpRight :: bool
  hasDownLeft :: bool
  hasDownRight :: bool

definition neighborFlags :: "MapRenderer \<Rightarrow> int \<Rightarrow> int \<Rightarrow> int \<Rightarrow> NeighborFlags" where
  "neighborFlags r tileId x y =
     \<lparr> hasUp = (getTileIdAt r x (y - 1) = tileId),
       hasRight = (getTileIdAt r (x + 1) y = tileId),
       hasDown = (getTileIdAt r x (y + 1) = tileId),
       hasLeft = (getTileIdAt r (x - 1) y = tileId),
       hasUpLeft = (getTileIdAt r (x - 1) (y - 1) = tileId),
       hasUpRight = (getTileIdAt r (x + 1) (y - 1) = tileId),
       hasDownLeft = (getTileIdAt r (x - 1) (y + 1) = tileId),
       hasDownRight = (getTileIdAt r (x + 1) (y + 1) = tileId) \<rparr>"

text \<open>
  The local helper \<open>getMiniTile(hasAdjacent1, hasAdjacent2, hasDiagonal, quadrant)\<close>;
  the result \<open>{col, row}\<close> is the pair \<open>(col, row)\<close>.
\<close>

datatype Quadrant = TL | TR | BL | BR

definition getMiniTile :: "bool \<Rightarrow> bool \<Rightarrow> bool \<Rightarrow> Quadrant \<Rightarrow> int \<times> int" where
  "getMiniTile hasAdjacent1 hasAdjacent2 hasDiagonal quadrant =
     (if hasAdjacent1 \<and> hasAdjacent2 then
        (if hasDiagonal then
           (if quadrant = TL then (1, 3)
            else if quadrant = TR then (2, 3)
            else if quadrant = BL then (1, 4)
            else (2, 4))
         else
           (if quadrant = TL then (0, 0)
            else if quadrant = TR then (1, 0)
            else if quadrant = BL then (4, 0)
            else (5, 0)))
      else if \<not> hasAdjacent1 \<and> \<not> hasAdjacent2 then
        (if quadrant = TL then (0, 2)
         else if quadrant = TR then (5, 2)
         else if quadrant = BL then (0, 2)
         else (5, 2))
      else if hasAdjacent1 \<and> \<not> hasAdjacent2 then
        (if quadrant = TL then (1, 2)
         else if quadrant = TR then (2, 2)
         else if quadrant = BL then (3, 2)
         else (4, 2))
      else
        (if quadrant = TL then (0, 3)
         else if quadrant = TR then (5, 3)
         else if quadrant = BL then (0, 4)
         else (5, 4)))"

text \<open>
  The four quadrants \<open>tl\<close>, \<open>tr\<close>, \<open>bl\<close>, \<open>br\<close> that \<open>renderRMXPAutotile\<close> draws, from
  the flags (fields \<open>q_tl\<close>, \<open>q_tr\<close>, \<open>q_bl\<close>, \<open>q_br\<close>).
\<close>

record Quadrants =
  q_tl :: "int \<times> int"
  q_tr :: "int \<times> int"
  q_bl :: "int \<times> int"
  q_br :: "int \<times> int"

definition quadrantsOf :: "NeighborFlags \<Rightarrow> Quadrants" where
  "quadrantsOf f =
     \<lparr> q_tl = getMiniTile (hasLeft f) (hasUp f) (hasUpLeft f) TL,
       q_tr = getMiniTile (hasRight f) (hasUp f) (hasUpRight f) TR,
       q_bl = getMiniTile (hasLeft f) (hasDown f) (hasDownLeft f) BL,
       q_br = getMiniTile (hasRight f) (hasDown f) (hasDownRight f) BR \<rparr>"

definition renderRMXPAutotile_quadrants :: "MapRenderer \<Rightarrow> int \<Rightarrow> int \<Rightarrow> int \<Rightarrow> Quadrants" where
  "renderRMXPAutotile_quadrants r tileId x y = quadrantsOf (neighborFlags r tileId x y)"

text \<open>
  \<open>isBlockingTile(tileId)\<close>, with its literal table \<open>blockingRanges\<close> and the loop over
  it.
\<close>

definition blockingRanges :: "(int \<times> int) list" where
  "blockingRanges =
     [(800, 827), (1280, 1400), (1536, 1600), (1960, 2000),
      (2048, 2200), (2304, 2400), (3400, 3500)]"

fun in_ranges :: "(int \<times> int) list \<Rightarrow> int \<Rightarrow> bool" where
  "in_ranges [] tileId = False"
| "in_ranges ((lo, hi) # rest) tileId =
     (if tileId \<ge> lo \<and> tileId \<le> hi then True else in_ranges rest tileId)"

definition isBlockingTile :: "int \<Rightarrow> bool" where
  "isBlockingTile tileId =
     (if tileId = 0 then False
      else if tileId < 384 then tileId \<ge> 2048 \<and> tileId \<le> 2200
      else in_ranges blockingRanges tileId)"

subsection \<open>The vocabulary of the specification for autotiles\<close>

text \<open>
  The specification splits autotile IDs into slots of 48 (\<open>slot = id div 48\<close>) and speaks
  of the top-most non-empty tile ID at a position across all layers. These two
  definitions follow its words; the theorems compare them with \<open>getTileIdAt\<close>.
\<close>

definition spec_slot :: "int \<Rightarrow> int" where
  "spec_slot tileId = tileId div 48"

definition spec_cell :: "Layer \<Rightarrow> int \<Rightarrow> int \<Rightarrow> int" where
  "spec_cell layer x y =
     (case array_get layer y of
        None \<Rightarrow> 0
      | Some row \<Rightarrow> (case array_get row x of None \<Rightarrow> 0 | Some t \<Rightarrow> t))"

definition spec_topmost :: "MapRenderer \<Rightarrow> int \<Rightarrow> int \<Rightarrow> int option" where
  "spec_topmost r x y =
     (case filter (\<lambda>t. t \<noteq> 0) (map (\<lambda>layer. spec_cell layer x y) (rev (layers r))) of
        [] \<Rightarrow> None
      | t # _ \<Rightarrow> Some t)"

definition in_bounds :: "MapRenderer \<Rightarrow> int \<Rightarrow> int \<Rightarrow> bool" where
  "in_bounds r x y = (0 \<le> x \<and> x < width r \<and> 0 \<le> y \<and> y < height r)"

text \<open>
  The classification of a quadrant in the specification's words, in its order of
  precedence, and the mini-tile coordinates of each class as the source fixes them.
\<close>

datatype MiniKind = Inner | InnerCut | OuterCorner | EdgeHorizontal | EdgeVertical

definition spec_classify :: "bool \<Rightarrow> bool \<Rightarrow> bool \<Rightarrow> MiniKind" where
  "spec_classify cardinal1 cardinal2 diagonal =
     (if cardinal1 \<and> cardinal2 \<and> diagonal then Inner
      else if cardinal1 \<and> cardinal2 \<and> \<not> diagonal then InnerCut
      else if \<not> cardinal1 \<and> \<not> cardinal2 then OuterCorner
      else if cardinal1 then EdgeHorizontal
      else EdgeVertical)"

fun kind_coords :: "MiniKind \<Rightarrow> Quadrant \<Rightarrow> int \<times> int" where
  "kind_coords Inner TL = (1, 3)"
| "kind_coords Inner TR = (2, 3)"
| "kind_coords Inner BL = (1, 4)"
| "kind_coords Inner BR = (2, 4)"
| "kind_coords InnerCut TL = (0, 0)"
| "kind_coords InnerCut TR = (1, 0)"
| "kind_coords InnerCut BL = (4, 0)"
| "kind_coords InnerCut BR = (5, 0)"
| "kind_coords OuterCorner TL = (0, 2)"
| "kind_coords OuterCorner TR = (5, 2)"
| "kind_coords OuterCorner BL = (0, 2)"
| "kind_coords OuterCorner BR = (5, 2)"
| "kind_coords EdgeHorizontal TL = (1, 2)"
| "kind_coords EdgeHorizontal TR = (2, 2)"
| "kind_coords EdgeHorizontal BL = (3, 2)"
| "kind_coords EdgeHorizontal BR = (4, 2)"
| "kind_coords EdgeVertical TL = (0, 3)"
| "kind_coords EdgeVertical TR = (5, 3)"
| "kind_coords EdgeVertical BL = (0, 4)"
| "kind_coords EdgeVertical BR = (5, 4)"

section \<open>Server: the map-partitioned session registry (server, second revision with mapId)\<close>

text \<open>
  \<open>interface Player\<close> of the server. Its fields \<open>id\<close>, \<open>x\<close>, \<open>y\<close>, \<open>direction\<close>
  and \<open>isMoving\<close> carry the prefix \<open>p_\<close> here.
\<close>

record PlayerRecord =
  p_id :: string
  p_x :: int
  p_y :: int
  p_direction :: Direction
  p_isMoving :: bool
  spriteId :: int
  mapId :: int

text \<open>The messages of the wire protocol, a tagged union on the field \<open>type\<close>.\<close>

datatype ClientMessage =
    MOVE int int Direction bool "int option"
  | MAP_TRANSITION int int int int
  | OTHER_TYPE

datatype ServerMessage =
    INIT string "PlayerRecord list"
  | PLAYER_JOIN PlayerRecord
  | PLAYER_MOVE string int int Direction bool int
  | PLAYER_LEAVE string

text \<open>
  A socket is known by its identity; \<open>readyState\<close> is the state the \<open>ws\<close> library
  reports for it. \<open>players\<close> is a JavaScript \<open>Map<WebSocket, Player>\<close>: it iterates in
  insertion order, so it is an association list, with \<open>Map.has\<close>, \<open>Map.get\<close>,
  \<open>Map.set\<close> and \<open>Map.delete\<close> on it.
\<close>

type_synonym WebSocket = nat

datatype ReadyState = CONNECTING | OPEN | CLOSING | CLOSED

record Server =
  players :: "(WebSocket \<times> PlayerRecord) list"
  readyState :: "WebSocket \<Rightarrow> ReadyState"

definition map_get :: "(WebSocket \<times> PlayerRecord) list \<Rightarrow> WebSocket \<Rightarrow> PlayerRecord option" where
  "map_get ps ws = map_of ps ws"

definition map_has :: "(WebSocket \<times> PlayerRecord) list \<Rightarrow> WebSocket \<Rightarrow> bool" where
  "map_has ps ws = (map_get ps ws \<noteq> None)"

fun map_set :: "(WebSocket \<times> PlayerRecord) list \<Rightarrow> WebSocket \<Rightarrow> PlayerRecord \<Rightarrow> (WebSocket \<times> PlayerRecord) list" where
  "map_set [] ws v = [(ws, v)]"
| "map_set ((k, u) # rest) ws v = (if k = ws then (k, v) # rest else (k, u) # map_set rest ws v)"

definition map_delete :: "(WebSocket \<times> PlayerRecord) list \<Rightarrow> WebSocket \<Rightarrow> (WebSocket \<times> PlayerRecord) list" where
  "map_delete ps ws = filter (\<lambda>(k, u). k \<noteq> ws) ps"

text \<open>
  A send is the pair of the socket \<open>send\<close> is called on and the message. Every handler
  returns the registry it leaves and the sends it makes, in order.

  \<open>broadcastToMap(mapId, message, excludeWs = null)\<close>.
\<close>

type_synonym Send = "WebSocket \<times> ServerMessage"

fun broadcastToMap_loop :: "Server \<Rightarrow> (WebSocket \<times> PlayerRecord) list \<Rightarrow> int \<Rightarrow> ServerMessage \<Rightarrow> WebSocket option \<Rightarrow> Send list" where
  "broadcastToMap_loop s [] mapId0 message excludeWs = []"
| "broadcastToMap_loop s ((ws, player) # rest) mapId0 message excludeWs =
     (if mapId player = mapId0 \<and> readyState s ws = OPEN \<and> Some ws \<noteq> excludeWs
      then (ws, message) # broadcastToMap_loop s rest mapId0 message excludeWs
      else broadcastToMap_loop s rest mapId0 message excludeWs)"

definition broadcastToMap :: "Server \<Rightarrow> int \<Rightarrow> ServerMessage \<Rightarrow> WebSocket option \<Rightarrow> Send list" where
  "broadcastToMap s mapId0 message excludeWs =
     broadcastToMap_loop s (players s) mapId0 message excludeWs"

text \<open>
  The \<open>connection\<close> handler. The fresh identity (\<open>uuidv4()\<close>) and the random sprite
  index are its inputs. Every record of this server is created with a sprite index, so
  the repair of a missing \<open>spriteId\<close> inside the snapshot never runs.
\<close>

definition on_connection :: "Server \<Rightarrow> WebSocket \<Rightarrow> string \<Rightarrow> int \<Rightarrow> Server \<times> Send list" where
  "on_connection s ws playerId spriteId0 =
     (let player = \<lparr> p_id = playerId, p_x = 20, p_y = 1, p_direction = DirDown,
                      p_isMoving = False, spriteId = spriteId0, mapId = 79 \<rparr>;
          s1 = s\<lparr> players := map_set (players s) ws player \<rparr>;
          playersOnSameMap = filter (\<lambda>p. mapId p = mapId player) (map snd (players s1));
          initMessage = INIT playerId playersOnSameMap;
          joinMessage = PLAYER_JOIN
            \<lparr> p_id = p_id player, p_x = p_x player, p_y = p_y player,
              p_direction = p_direction player, p_isMoving = p_isMoving player,
              spriteId = spriteId player, mapId = mapId player \<rparr>
      in (s1, (ws, initMessage) # broadcastToMap s1 (mapId player) joinMessage (Some ws)))"

text \<open>
  The \<open>message\<close> handler of the connection with socket \<open>ws\<close> and identity
  \<open>playerId\<close>, on a parsed message. The record is mutated in place, which keeps its
  place in the registry.
\<close>

definition on_message :: "Server \<Rightarrow> WebSocket \<Rightarrow> string \<Rightarrow> ClientMessage \<Rightarrow> Server \<times> Send list" where
  "on_message s ws playerId data =
     (case data of
        MOVE x0 y0 d m mapIdOpt \<Rightarrow>
          (case map_get (players s) ws of
             None \<Rightarrow> (s, [])
           | Some p \<Rightarrow>
               let p1 = p\<lparr> p_x := x0, p_y := y0, p_direction := d, p_isMoving := m \<rparr>;
                   p2 = (case mapIdOpt of None \<Rightarrow> p1 | Some newMap \<Rightarrow> p1\<lparr> mapId := newMap \<rparr>);
                   s1 = s\<lparr> players := map_set (players s) ws p2 \<rparr>;
                   moveMessage = PLAYER_MOVE playerId (p_x p2) (p_y p2) (p_direction p2)
                                   (p_isMoving p2) (mapId p2)
               in (s1, broadcastToMap s1 (mapId p2) moveMessage (Some ws)))
      | MAP_TRANSITION fromMap toMap x0 y0 \<Rightarrow>
          (case map_get (players s) ws of
             None \<Rightarrow> (s, [])
           | Some p \<Rightarrow>
               let leaveMessage = PLAYER_LEAVE playerId;
                   sends1 = broadcastToMap s fromMap leaveMessage (Some ws);
                   p' = p\<lparr> p_x := x0, p_y := y0, mapId := toMap, p_isMoving := False \<rparr>;
                   s1 = s\<lparr> players := map_set (players s) ws p' \<rparr>;
                   joinMessage = PLAYER_JOIN
                     \<lparr> p_id = p_id p', p_x = p_x p', p_y = p_y p',
                       p_direction = p_direction p', p_isMoving = p_isMoving p',
                       spriteId = spriteId p', mapId = mapId p' \<rparr>;
                   sends3 = broadcastToMap s1 toMap joinMessage (Some ws);
                   playersOnNewMap =
                     map snd (filter (\<lambda>(otherWs, otherPlayer). mapId otherPlayer = toMap \<and> otherWs \<noteq> ws)
                                (players s1));
                   sends4 = map (\<lambda>otherPlayer. (ws, PLAYER_JOIN otherPlayer)) playersOnNewMap
               in (s1, sends1 @ sends3 @ sends4))
      | OTHER_TYPE \<Rightarrow> (s, []))"

text \<open>The \<open>close\<close> handler.\<close>

definition on_close :: "Server \<Rightarrow> WebSocket \<Rightarrow> string \<Rightarrow> Server \<times> Send list" where
  "on_close s ws playerId =
     (let disconnectedPlayer = map_get (players s) ws;
          s1 = s\<lparr> players := map_delete (players s) ws \<rparr>
      in case disconnectedPlayer of
           None \<Rightarrow> (s1, [])
         | Some dp \<Rightarrow> (s1, broadcastToMap s1 (mapId dp) (PLAYER_LEAVE playerId) None))"

text \<open>
  The record a new connection gets, and the registries the examples below run on: the
  empty one with every socket open, one with a first player already connected, and
  scenario A of the specification (A and B on map 79, C on map 5) with B's socket
  closing.
\<close>

definition spawn_record :: "string \<Rightarrow> int \<Rightarrow> PlayerRecord" where
  "spawn_record playerId spriteId0 =
     \<lparr> p_id = playerId, p_x = 20, p_y = 1, p_direction = DirDown,
       p_isMoving = False, spriteId = spriteId0, mapId = 79 \<rparr>"

definition server_empty :: Server where
  "server_empty = \<lparr> players = [], readyState = (\<lambda>ws. OPEN) \<rparr>"

definition server_one :: Server where
  "server_one = fst (on_connection server_empty 1 ''first'' 2)"

definition server_abc :: Server where
  "server_abc =
     \<lparr> players = [(1, spawn_record ''A'' 0),
                  (2, spawn_record ''B'' 1),
                  (3, (spawn_record ''C'' 2)\<lparr> mapId := 5 \<rparr>)],
       readyState = (\<lambda>ws. if ws = 2 then CLOSING else OPEN) \<rparr>"

definition server_abc_open :: Server where
  "server_abc_open = server_abc\<lparr> readyState := (\<lambda>ws. OPEN) \<rparr>"

subsection \<open>The vocabulary of the specification for the registry\<close>

text \<open>
  The records sharing a map, the other connections whose record is on a map, and those
  of them whose socket is open, each in registry order; and the registry with the record
  of one connection replaced.
\<close>

definition on_map :: "Server \<Rightarrow> int \<Rightarrow> (WebSocket \<times> PlayerRecord) list" where
  "on_map s m = filter (\<lambda>(w, q). mapId q = m) (players s)"

definition others_on_map :: "Server \<Rightarrow> WebSocket \<Rightarrow> int \<Rightarrow> (WebSocket \<times> PlayerRecord) list" where
  "others_on_map s ws m = filter (\<lambda>(w, q). w \<noteq> ws) (on_map s m)"

definition open_others_on_map :: "Server \<Rightarrow> WebSocket \<Rightarrow> int \<Rightarrow> (WebSocket \<times> PlayerRecord) list" where
  "open_others_on_map s ws m = filter (\<lambda>(w, q). readyState s w = OPEN) (others_on_map s ws m)"

definition replace_record :: "(WebSocket \<times> PlayerRecord) list \<Rightarrow> WebSocket \<Rightarrow> PlayerRecord \<Rightarrow> (WebSocket \<times> PlayerRecord) list" where
  "replace_record ps ws v = map (\<lambda>(k, u). if k = ws then (k, v) else (k, u)) ps"

text \<open>A JavaScript \<open>Map\<close> holds each key once.\<close>

definition registry_ok :: "Server \<Rightarrow> bool" where
  "registry_ok s = distinct (map fst (players s))"

subsection \<open>Examples for the client\<close>

text \<open>
  A player in the middle of a move with its callback set; a one-row map whose two cells
  hold different variations of autotile slot 1; and a two-layer map whose upper layer is
  empty above two cells of the same autotile.
\<close>

definition moving_example :: Player where
  "moving_example = fst (snd (startMove (setOnMove (Player_new 3 4 32)) 1 0))"

definition map_two_variants :: MapRenderer where
  "map_two_variants =
     MapRenderer_new \<lparr> md_width = 2, md_height = 1, md_layers = [[[48, 49]]] \<rparr> TILE_SIZE []"

definition map_same_tiles :: MapRenderer where
  "map_same_tiles =
     MapRenderer_new \<lparr> md_width = 2, md_height = 1, md_layers = [[[48, 48]], [[0, 0]]] \<rparr> TILE_SIZE []"

section \<open>Properties of the player motion state machine\<close>

lemma motion_inv_startMove:
  "motion_inv p \<Longrightarrow> unit_delta dx dy \<Longrightarrow> motion_inv (fst (snd (startMove p dx dy)))"
  by (auto simp: motion_inv_def one_tile_away_def startMove_def Let_def)

lemma motion_inv_update:
  "motion_inv p \<Longrightarrow> motion_inv (fst (update p dt))"
  by (auto simp: motion_inv_def one_tile_away_def update_def Let_def)

lemma motion_inv_setState:
  "motion_inv (setState p x0 y0 d m)"
  by (cases d) (auto simp: motion_inv_def one_tile_away_def setState_def Let_def)

lemma motion_inv_apply_op:
  "motion_inv p \<Longrightarrow> allowed_op op \<Longrightarrow> motion_inv (apply_op p op)"
  by (cases op)
     (simp_all add: motion_inv_startMove motion_inv_update motion_inv_setState
        del: unit_delta.simps)

lemma motion_inv_foldl:
  "motion_inv p \<Longrightarrow> list_all allowed_op ops \<Longrightarrow> motion_inv (foldl apply_op p ops)"
  by (induction ops arbitrary: p) (simp_all add: motion_inv_apply_op)

lemma moving_example_eq:
  "moving_example =
     (setOnMove (Player_new 3 4 32))\<lparr> direction := DirRight, targetX := 4, targetY := 4,
                                      isMoving := True, moveProgress := 0 \<rparr>"
  by (simp add: moving_example_def startMove_def setOnMove_def Player_new_def Let_def)

text \<open>
  C8. A \<open>startMove\<close> on a player that is already moving returns \<open>false\<close> and changes
  nothing: the player after the call is the player before it, field for field
  (position, target, direction, moveProgress, animation state), and the \<open>onMove\<close>
  callback is not called.
\<close>

theorem startMove_rejected_while_moving:
  "isMoving p \<Longrightarrow> startMove p dx dy = (False, p, [])"
  by (simp add: startMove_def)

theorem startMove_rejected_while_moving_witness:
  "isMoving moving_example \<and> onMove_set moving_example \<and>
   startMove moving_example 0 1 = (False, moving_example, [])"
proof -
  have m: "isMoving moving_example"
    by (simp add: moving_example_eq)
  have c: "onMove_set moving_example"
    by (simp add: moving_example_eq setOnMove_def)
  from m c startMove_rejected_while_moving [OF m, of 0 1] show ?thesis by simp
qed

text \<open>
  C9. From an idle player whose target is its position, after any number of steps of
  any sequence of operations (\<open>startMove\<close> with a unit delta, \<open>update\<close> with a
  non-negative elapsed time, \<open>setState\<close> with any position, any of the four directions
  and either motion flag) the motion invariant holds: a moving player's target is
  exactly one tile from its position along exactly one axis, an idle player's target is
  its position. Positions and targets are integers throughout (they have type \<open>int\<close>).
\<close>

theorem motion_invariant_preserved:
  assumes "\<not> isMoving p0" and "targetX p0 = px p0" and "targetY p0 = py p0"
    and "list_all allowed_op ops"
  shows "motion_inv (run_ops p0 (take n ops))"
proof -
  have "motion_inv p0" using assms(1-3) by (simp add: motion_inv_def)
  moreover have "list_all allowed_op (take n ops)"
    using assms(4) by (auto simp: list_all_iff dest: in_set_takeD)
  ultimately show ?thesis unfolding run_ops_def by (rule motion_inv_foldl)
qed

theorem motion_invariant_preserved_witness:
  "isMoving (run_ops (Player_new 3 4 32)
      [StartMove 1 0, Update 0.1, StartMove 0 1, Update 0.2, SetState 7 7 DirUp True]) \<and>
   one_tile_away (run_ops (Player_new 3 4 32)
      [StartMove 1 0, Update 0.1, StartMove 0 1, Update 0.2, SetState 7 7 DirUp True])"
proof -
  let ?ops = "[StartMove 1 0, Update 0.1, StartMove 0 1, Update 0.2, SetState 7 7 DirUp True]"
  have idle: "\<not> isMoving (Player_new 3 4 32)"
    and tx: "targetX (Player_new 3 4 32) = px (Player_new 3 4 32)"
    and ty: "targetY (Player_new 3 4 32) = py (Player_new 3 4 32)"
    by (simp_all add: Player_new_def)
  have ok: "list_all allowed_op ?ops" by simp
  have mv: "isMoving (run_ops (Player_new 3 4 32) ?ops)"
    by (simp add: run_ops_def setState_def Let_def)
  from motion_invariant_preserved [OF idle tx ty ok, of 5] mv
  show ?thesis by (simp add: motion_inv_def)
qed

text \<open>
  C10. \<open>update\<close> on an idle player changes no field and calls no callback, whatever the
  elapsed time; so whenever \<open>update\<close> changes the animation timer, the player was
  moving.
\<close>

theorem update_idle_unchanged:
  "(\<not> isMoving p \<longrightarrow> update p dt = (p, [])) \<and>
   (animationTimer (fst (update p dt)) \<noteq> animationTimer p \<longrightarrow> isMoving p)"
  by (auto simp: update_def)

theorem update_idle_unchanged_witness:
  "\<not> isMoving (Player_new 3 4 32) \<and>
   update (Player_new 3 4 32) 0.5 = (Player_new 3 4 32, []) \<and>
   animationTimer (fst (update moving_example 0.1)) \<noteq> animationTimer moving_example \<and>
   isMoving moving_example"
proof -
  have idle: "\<not> isMoving (Player_new 3 4 32)" by (simp add: Player_new_def)
  have adv: "animationTimer (fst (update moving_example 0.1)) \<noteq> animationTimer moving_example"
    by (simp add: moving_example_eq update_def setOnMove_def Player_new_def Let_def)
  from update_idle_unchanged [of "Player_new 3 4 32" "0.5"] idle
  have a: "update (Player_new 3 4 32) 0.5 = (Player_new 3 4 32, [])" by blast
  from update_idle_unchanged [of moving_example "0.1"] adv
  have b: "isMoving moving_example" by blast
  from idle a adv b show ?thesis by blast
qed

section \<open>Properties of tile resolution and autotiles\<close>

lemma getTileIdAt_scan_topmost:
  "n \<le> length ls \<Longrightarrow>
   getTileIdAt_scan ls n x y =
     (case filter (\<lambda>t. t \<noteq> 0) (map (\<lambda>layer. spec_cell layer x y) (rev (take n ls))) of
        [] \<Rightarrow> 0 | t # _ \<Rightarrow> t)"
proof (induction n)
  case 0
  then show ?case by simp
next
  case (Suc n)
  then have lt: "n < length ls" and le: "n \<le> length ls" by simp_all
  have tk: "rev (take (Suc n) ls) = (ls ! n) # rev (take n ls)"
    using lt by (simp add: take_Suc_conv_app_nth)
  show ?case
    using Suc.IH [OF le]
    by (simp add: tk spec_cell_def split: option.splits)
qed

lemma getTileIdAt_in_bounds:
  "in_bounds r x y \<Longrightarrow>
   getTileIdAt r x y = (case spec_topmost r x y of None \<Rightarrow> 0 | Some t \<Rightarrow> t)"
  by (simp add: getTileIdAt_def in_bounds_def spec_topmost_def getTileIdAt_scan_topmost
           split: list.splits)

lemma getTileIdAt_out_of_bounds:
  "\<not> in_bounds r x y \<Longrightarrow> getTileIdAt r x y = - 1"
  by (auto simp: getTileIdAt_def in_bounds_def)

lemma spec_topmost_nonzero:
  assumes "spec_topmost r x y = Some t"
  shows "t \<noteq> 0"
proof -
  from assms obtain rest where
    "filter (\<lambda>t. t \<noteq> 0) (map (\<lambda>layer. spec_cell layer x y) (rev (layers r))) = t # rest"
    by (auto simp: spec_topmost_def split: list.splits)
  then have "t \<in> set (filter (\<lambda>t. t \<noteq> 0) (map (\<lambda>layer. spec_cell layer x y) (rev (layers r))))"
    by simp
  then show ?thesis by simp
qed

lemma same_tile_iff:
  "0 < tileId \<Longrightarrow>
   (getTileIdAt r x y = tileId) = (in_bounds r x y \<and> spec_topmost r x y = Some tileId)"
  by (cases "in_bounds r x y")
     (auto simp: getTileIdAt_in_bounds getTileIdAt_out_of_bounds split: option.splits
           dest: spec_topmost_nonzero)

text \<open>
  C4, as the specification states it, fails: the neighbour to the right of the tile 48
  at (0, 0) holds 49, the top-most non-empty ID there and in the same slot of 48 IDs
  as 48 (another variation), and yet the flag \<open>hasRight\<close> is false.
\<close>

theorem neighbor_same_slot_counterexample:
  "in_bounds map_two_variants (0 + 1) 0 \<and>
   spec_topmost map_two_variants (0 + 1) 0 = Some 49 \<and>
   spec_slot 49 = spec_slot 48 \<and>
   \<not> hasRight (neighborFlags map_two_variants 48 0 0)"
  by (simp add: map_two_variants_def MapRenderer_new_def spec_topmost_def spec_cell_def
        array_get_def in_bounds_def spec_slot_def neighborFlags_def getTileIdAt_def)

text \<open>
  C4, amended. For a tile with a positive ID rendered at \<open>(x, y)\<close>, each of the eight
  neighbour flags is true if and only if the neighbouring position \<open>(x + dx, y + dy)\<close>
  lies inside the map and the top-most non-empty tile ID across all layers there is
  equal to the ID of the tile being rendered. Two IDs of the same slot with different
  variations do not count as the same autotile.
\<close>

theorem neighbor_flags_same_tile_id:
  assumes "0 < tileId"
  shows "hasUp (neighborFlags r tileId x y)
           = (in_bounds r x (y - 1) \<and> spec_topmost r x (y - 1) = Some tileId)
       \<and> hasRight (neighborFlags r tileId x y)
           = (in_bounds r (x + 1) y \<and> spec_topmost r (x + 1) y = Some tileId)
       \<and> hasDown (neighborFlags r tileId x y)
           = (in_bounds r x (y + 1) \<and> spec_topmost r x (y + 1) = Some tileId)
       \<and> hasLeft (neighborFlags r tileId x y)
           = (in_bounds r (x - 1) y \<and> spec_topmost r (x - 1) y = Some tileId)
       \<and> hasUpLeft (neighborFlags r tileId x y)
           = (in_bounds r (x - 1) (y - 1) \<and> spec_topmost r (x - 1) (y - 1) = Some tileId)
       \<and> hasUpRight (neighborFlags r tileId x y)
           = (in_bounds r (x + 1) (y - 1) \<and> spec_topmost r (x + 1) (y - 1) = Some tileId)
       \<and> hasDownLeft (neighborFlags r tileId x y)
           = (in_bounds r (x - 1) (y + 1) \<and> spec_topmost r (x - 1) (y + 1) = Some tileId)
       \<and> hasDownRight (neighborFlags r tileId x y)
           = (in_bounds r (x + 1) (y + 1) \<and> spec_topmost r (x + 1) (y + 1) = Some tileId)"
  by (simp add: neighborFlags_def same_tile_iff [OF assms])

theorem neighbor_flags_same_tile_id_witness:
  "(0::int) < 48 \<and>
   spec_topmost map_same_tiles 1 0 = Some 48 \<and>
   hasRight (neighborFlags map_same_tiles 48 0 0) \<and>
   \<not> hasLeft (neighborFlags map_same_tiles 48 0 0)"
proof -
  have pos: "(0::int) < 48" by simp
  have top: "spec_topmost map_same_tiles 1 0 = Some 48"
    by (simp add: map_same_tiles_def MapRenderer_new_def spec_topmost_def spec_cell_def array_get_def)
  have inb: "in_bounds map_same_tiles 1 0" and outb: "\<not> in_bounds map_same_tiles (- 1) 0"
    by (simp_all add: map_same_tiles_def MapRenderer_new_def in_bounds_def)
  from neighbor_flags_same_tile_id [OF pos, of map_same_tiles 0 0] top inb outb
  show ?thesis by simp
qed

lemma getMiniTile_kind:
  "getMiniTile c1 c2 d q = kind_coords (spec_classify c1 c2 d) q"
  by (cases q) (auto simp: getMiniTile_def spec_classify_def)

text \<open>
  C5. The mini-tile of a quadrant is a function of its two cardinal flags, its diagonal
  flag and its role alone, and it is the mini-tile of the class that the precedence of
  the specification selects: inner when both cardinals and the diagonal are present,
  inner-cut corner when both cardinals are present without the diagonal, outer corner
  when both cardinals are absent, and an edge otherwise. The four quadrants of a tile
  are a function of its eight flags, for every value of the flags: the top-left
  quadrant is classified by left, up and up-left, the top-right one by right, up and
  up-right, the bottom-left one by left, down and down-left, the bottom-right one by
  right, down and down-right; and the quadrants the renderer draws for a tile are those
  of the flags it computes there. With no flag set they are the outer-corner
  mini-tiles, which are the pair (0, 2) and (5, 2); with all eight flags set they are
  the four inner mini-tiles, which are distinct.
\<close>

theorem getMiniTile_classification:
  "getMiniTile c1 c2 d q = kind_coords (spec_classify c1 c2 d) q
   \<and> quadrantsOf f
       = \<lparr> q_tl = kind_coords (spec_classify (hasLeft f) (hasUp f) (hasUpLeft f)) TL,
           q_tr = kind_coords (spec_classify (hasRight f) (hasUp f) (hasUpRight f)) TR,
           q_bl = kind_coords (spec_classify (hasLeft f) (hasDown f) (hasDownLeft f)) BL,
           q_br = kind_coords (spec_classify (hasRight f) (hasDown f) (hasDownRight f)) BR \<rparr>
   \<and> renderRMXPAutotile_quadrants r tileId x y = quadrantsOf (neighborFlags r tileId x y)
   \<and> quadrantsOf \<lparr> hasUp = False, hasRight = False, hasDown = False, hasLeft = False,
                   hasUpLeft = False, hasUpRight = False, hasDownLeft = False,
                   hasDownRight = False \<rparr>
       = \<lparr> q_tl = kind_coords OuterCorner TL, q_tr = kind_coords OuterCorner TR,
           q_bl = kind_coords OuterCorner BL, q_br = kind_coords OuterCorner BR \<rparr>
   \<and> set (map (kind_coords OuterCorner) [TL, TR, BL, BR]) = {(0, 2), (5, 2)}
   \<and> quadrantsOf \<lparr> hasUp = True, hasRight = True, hasDown = True, hasLeft = True,
                   hasUpLeft = True, hasUpRight = True, hasDownLeft = True,
                   hasDownRight = True \<rparr>
       = \<lparr> q_tl = kind_coords Inner TL, q_tr = kind_coords Inner TR,
           q_bl = kind_coords Inner BL, q_br = kind_coords Inner BR \<rparr>
   \<and> distinct (map (kind_coords Inner) [TL, TR, BL, BR])"
proof -
  have wiring: "quadrantsOf g
       = \<lparr> q_tl = kind_coords (spec_classify (hasLeft g) (hasUp g) (hasUpLeft g)) TL,
           q_tr = kind_coords (spec_classify (hasRight g) (hasUp g) (hasUpRight g)) TR,
           q_bl = kind_coords (spec_classify (hasLeft g) (hasDown g) (hasDownLeft g)) BL,
           q_br = kind_coords (spec_classify (hasRight g) (hasDown g) (hasDownRight g)) BR \<rparr>"
    for g
    by (simp add: quadrantsOf_def getMiniTile_kind)
  have isolated: "quadrantsOf \<lparr> hasUp = False, hasRight = False, hasDown = False,
                   hasLeft = False, hasUpLeft = False, hasUpRight = False,
                   hasDownLeft = False, hasDownRight = False \<rparr>
       = \<lparr> q_tl = kind_coords OuterCorner TL, q_tr = kind_coords OuterCorner TR,
           q_bl = kind_coords OuterCorner BL, q_br = kind_coords OuterCorner BR \<rparr>"
    by (simp add: wiring spec_classify_def)
  have surrounded: "quadrantsOf \<lparr> hasUp = True, hasRight = True, hasDown = True,
                   hasLeft = True, hasUpLeft = True, hasUpRight = True,
                   hasDownLeft = True, hasDownRight = True \<rparr>
       = \<lparr> q_tl = kind_coords Inner TL, q_tr = kind_coords Inner TR,
           q_bl = kind_coords Inner BL, q_br = kind_coords Inner BR \<rparr>"
    by (simp add: wiring spec_classify_def)
  have pair: "set (map (kind_coords OuterCorner) [TL, TR, BL, BR]) = {(0, 2), (5, 2)}"
    by auto
  have dist: "distinct (map (kind_coords Inner) [TL, TR, BL, BR])"
    by simp
  have draw: "renderRMXPAutotile_quadrants r tileId x y = quadrantsOf (neighborFlags r tileId x y)"
    by (simp add: renderRMXPAutotile_quadrants_def)
  from getMiniTile_kind [of c1 c2 d q] wiring [of f] draw isolated pair surrounded dist
  show ?thesis by (intro conjI)
qed

theorem getMiniTile_classification_witness:
  "getMiniTile True True False BL = (4, 0) \<and>
   getMiniTile True False True TR = (2, 2) \<and>
   getMiniTile False True True BR = (5, 4) \<and>
   quadrantsOf \<lparr> hasUp = False, hasRight = False, hasDown = False, hasLeft = True,
                 hasUpLeft = False, hasUpRight = False, hasDownLeft = False,
                 hasDownRight = False \<rparr>
     = \<lparr> q_tl = (1, 2), q_tr = (5, 2), q_bl = (3, 2), q_br = (5, 2) \<rparr> \<and>
   quadrantsOf \<lparr> hasUp = True, hasRight = True, hasDown = False, hasLeft = False,
                 hasUpLeft = False, hasUpRight = False, hasDownLeft = False,
                 hasDownRight = True \<rparr>
     = \<lparr> q_tl = (0, 3), q_tr = (1, 0), q_bl = (0, 2), q_br = (4, 2) \<rparr> \<and>
   renderRMXPAutotile_quadrants map_same_tiles 48 0 0
     = \<lparr> q_tl = (0, 2), q_tr = (2, 2), q_bl = (0, 2), q_br = (4, 2) \<rparr>"
proof -
  have flags: "neighborFlags map_same_tiles 48 0 0
      = \<lparr> hasUp = False, hasRight = True, hasDown = False, hasLeft = False,
          hasUpLeft = False, hasUpRight = False, hasDownLeft = False,
          hasDownRight = False \<rparr>"
    by (simp add: neighborFlags_def getTileIdAt_def map_same_tiles_def MapRenderer_new_def
          array_get_def)
  have a: "getMiniTile True True False BL = (4, 0)"
    using getMiniTile_classification [of True True False BL] by (simp add: spec_classify_def)
  have b: "getMiniTile True False True TR = (2, 2)"
    using getMiniTile_classification [of True False True TR] by (simp add: spec_classify_def)
  have c: "getMiniTile False True True BR = (5, 4)"
    using getMiniTile_classification [of False True True BR] by (simp add: spec_classify_def)
  have d: "quadrantsOf \<lparr> hasUp = False, hasRight = False, hasDown = False, hasLeft = True,
                 hasUpLeft = False, hasUpRight = False, hasDownLeft = False,
                 hasDownRight = False \<rparr>
     = \<lparr> q_tl = (1, 2), q_tr = (5, 2), q_bl = (3, 2), q_br = (5, 2) \<rparr>"
    using getMiniTile_classification
      [where f = "\<lparr> hasUp = False, hasRight = False, hasDown = False, hasLeft = True,
                 hasUpLeft = False, hasUpRight = False, hasDownLeft = False,
                 hasDownRight = False \<rparr>"]
    by (simp add: spec_classify_def)
  have e: "quadrantsOf \<lparr> hasUp = True, hasRight = True, hasDown = False, hasLeft = False,
                 hasUpLeft = False, hasUpRight = False, hasDownLeft = False,
                 hasDownRight = True \<rparr>
     = \<lparr> q_tl = (0, 3), q_tr = (1, 0), q_bl = (0, 2), q_br = (4, 2) \<rparr>"
    using getMiniTile_classification
      [where f = "\<lparr> hasUp = True, hasRight = True, hasDown = False, hasLeft = False,
                 hasUpLeft = False, hasUpRight = False, hasDownLeft = False,
                 hasDownRight = True \<rparr>"]
    by (simp add: spec_classify_def)
  have g: "renderRMXPAutotile_quadrants map_same_tiles 48 0 0
     = \<lparr> q_tl = (0, 2), q_tr = (2, 2), q_bl = (0, 2), q_br = (4, 2) \<rparr>"
    using getMiniTile_classification
      [where r = map_same_tiles and tileId = 48 and x = 0 and y = 0
         and f = "neighborFlags map_same_tiles 48 0 0"]
    by (simp add: flags spec_classify_def)
  from a b c d e g show ?thesis by (intro conjI)
qed

text \<open>
  C6. In a renderer with the eight tileset columns the constructor sets and the tile
  size of 32 pixels the game passes, a tile ID \<open>t\<close> resolves to: null when \<open>t = 0\<close>;
  whatever the autotile path \<open>getAutotileCoords\<close> returns when \<open>0 < t < 384\<close>; and when
  \<open>t \<ge> 384\<close> the pixel offset into the tileset with column \<open>(t - 384) mod 8\<close> and row
  \<open>(t - 384) div 8\<close>, each times 32, with no source image of its own.
\<close>

theorem getTileCoords_resolution:
  assumes "tilesetColumns r = 8" and "mr_tileSize r = 32"
  shows "getTileCoords r 0 x y = None
       \<and> (0 < t \<and> t < 384 \<longrightarrow> getTileCoords r t x y = getAutotileCoords r t x y)
       \<and> (384 \<le> t \<longrightarrow> getTileCoords r t x y =
             Some (plain_coords (((t - 384) mod 8) * 32) (((t - 384) div 8) * 32) None))"
  using assms by (simp add: getTileCoords_def js_rem_def Let_def)

theorem getTileCoords_resolution_witness:
  "tilesetColumns map_same_tiles = 8 \<and> mr_tileSize map_same_tiles = 32 \<and>
   getTileCoords map_same_tiles 0 (Some 1) (Some 0) = None \<and>
   getTileCoords map_same_tiles 48 (Some 1) (Some 0)
     = getAutotileCoords map_same_tiles 48 (Some 1) (Some 0) \<and>
   getTileCoords map_same_tiles 395 None None = Some (plain_coords 96 32 None)"
proof -
  have c: "tilesetColumns map_same_tiles = 8" and ts: "mr_tileSize map_same_tiles = 32"
    by (simp_all add: map_same_tiles_def MapRenderer_new_def TILE_SIZE_def)
  from getTileCoords_resolution [OF c ts, of "Some 1" "Some 0" 48]
    getTileCoords_resolution [OF c ts, of None None 395] c ts
  show ?thesis by simp
qed

text \<open>
  C7. What the code does: \<open>isBlockingTile\<close> is false for every ID below 384, since
  the test inside that branch asks for an ID between 2048 and 2200, which no ID below
  384 meets; so no autotile is ever blocking. From 384 on, an ID is blocking exactly
  when it lies in one of the seven literal inclusive ranges, which are listed in
  increasing order without overlap.
\<close>

theorem isBlockingTile_table:
  "(tileId < 384 \<longrightarrow> \<not> isBlockingTile tileId)
   \<and> (384 \<le> tileId \<longrightarrow>
        isBlockingTile tileId =
          (800 \<le> tileId \<and> tileId \<le> 827 \<or> 1280 \<le> tileId \<and> tileId \<le> 1400 \<or>
           1536 \<le> tileId \<and> tileId \<le> 1600 \<or> 1960 \<le> tileId \<and> tileId \<le> 2000 \<or>
           2048 \<le> tileId \<and> tileId \<le> 2200 \<or> 2304 \<le> tileId \<and> tileId \<le> 2400 \<or>
           3400 \<le> tileId \<and> tileId \<le> 3500))
   \<and> sorted_wrt (\<lambda>(lo, hi) (lo', hi'). lo \<le> hi \<and> hi < lo') blockingRanges"
  by (auto simp: isBlockingTile_def blockingRanges_def)

theorem isBlockingTile_table_witness:
  "(383::int) < 384 \<and> \<not> isBlockingTile 383 \<and> \<not> isBlockingTile 1
   \<and> (384::int) \<le> 800 \<and> isBlockingTile 800 \<and> \<not> isBlockingTile 384"
  using isBlockingTile_table [of 383] isBlockingTile_table [of 1]
    isBlockingTile_table [of 800] isBlockingTile_table [of 384]
  by simp

section \<open>Properties of the session registry\<close>

lemma broadcastToMap_loop_eq:
  "broadcastToMap_loop s ps m msg ex =
     map (\<lambda>(w, q). (w, msg))
       (filter (\<lambda>(w, q). readyState s w = OPEN)
          (filter (\<lambda>(w, q). Some w \<noteq> ex) (filter (\<lambda>(w, q). mapId q = m) ps)))"
  by (induction ps) auto

lemma broadcastToMap_others:
  "broadcastToMap s m msg (Some ws) = map (\<lambda>(w, q). (w, msg)) (open_others_on_map s ws m)"
  by (simp add: broadcastToMap_def broadcastToMap_loop_eq open_others_on_map_def
        others_on_map_def on_map_def del: filter_filter)

lemma map_set_fresh: "map_get ps ws = None \<Longrightarrow> map_set ps ws v = ps @ [(ws, v)]"
  by (induction ps) (auto simp: map_get_def split: if_splits)

lemma replace_record_absent: "ws \<notin> fst ` set ps \<Longrightarrow> replace_record ps ws v = ps"
  by (induction ps) (auto simp: replace_record_def)

lemma map_set_present:
  "distinct (map fst ps) \<Longrightarrow> map_get ps ws = Some p \<Longrightarrow> map_set ps ws v = replace_record ps ws v"
proof (induction ps)
  case Nil
  then show ?case by (simp add: map_get_def)
next
  case (Cons a ps)
  obtain k u where a: "a = (k, u)" by (cases a)
  show ?case
  proof (cases "k = ws")
    case True
    then have "ws \<notin> fst ` set ps" using Cons.prems(1) a by auto
    then have "replace_record ps ws v = ps" by (rule replace_record_absent)
    then show ?thesis using True a by (simp add: replace_record_def)
  next
    case False
    then show ?thesis using Cons a by (simp add: map_get_def replace_record_def)
  qed
qed

lemma keys_replace_record: "map fst (replace_record ps ws v) = map fst ps"
  by (induction ps) (auto simp: replace_record_def)

lemma keys_map_set:
  "map fst (map_set ps ws v) = (if map_of ps ws = None then map fst ps @ [ws] else map fst ps)"
  by (induction ps) auto

lemma registry_ok_on_connection: "registry_ok s \<Longrightarrow> registry_ok (fst (on_connection s ws playerId sid))"
  by (auto simp: registry_ok_def on_connection_def Let_def keys_map_set map_of_eq_None_iff)

lemma registry_ok_on_message: "registry_ok s \<Longrightarrow> registry_ok (fst (on_message s ws playerId data))"
  by (cases data)
     (auto simp: registry_ok_def on_message_def Let_def keys_map_set map_get_def
        split: option.splits)

lemma registry_ok_on_close: "registry_ok s \<Longrightarrow> registry_ok (fst (on_close s ws playerId))"
  by (auto simp: registry_ok_def on_close_def Let_def map_delete_def distinct_map_filter
        split: option.splits)

lemma others_replace_record:
  "filter (\<lambda>(w, q). w \<noteq> ws) (filter (\<lambda>(w, q). mapId q = m) (replace_record ps ws v)) =
   filter (\<lambda>(w, q). w \<noteq> ws) (filter (\<lambda>(w, q). mapId q = m) ps)"
  by (induction ps) (auto simp: replace_record_def)

lemma backfill_filter:
  "filter (\<lambda>(otherWs, otherPlayer). mapId otherPlayer = m \<and> otherWs \<noteq> ws) ps =
   filter (\<lambda>(w, q). w \<noteq> ws) (filter (\<lambda>(w, q). mapId q = m) ps)"
  by (induction ps) auto

lemma map_snd_case: "map f (map snd xs) = map (\<lambda>(w, q). f q) xs"
  by (induction xs) auto

lemma others_on_map_replace:
  "others_on_map (s\<lparr> players := replace_record (players s) ws v \<rparr>) ws m = others_on_map s ws m"
  by (simp add: others_on_map_def on_map_def others_replace_record del: filter_filter)

lemma open_others_on_map_replace:
  "open_others_on_map (s\<lparr> players := replace_record (players s) ws v \<rparr>) ws m
   = open_others_on_map s ws m"
  by (simp add: open_others_on_map_def others_on_map_replace)

lemma server_one_eq:
  "server_one = \<lparr> players = [(1, spawn_record ''first'' 2)], readyState = (\<lambda>ws. OPEN) \<rparr>"
  by (simp add: server_one_def on_connection_def server_empty_def spawn_record_def Let_def)

text \<open>
  C1, as the specification states it, fails: the first connection of all, on the empty
  registry, gets an INIT whose players list is not empty. It has one entry, the record
  of the connecting player itself.
\<close>

theorem init_excludes_self_counterexample:
  "snd (on_connection server_empty 1 ''first'' 2)
     = [(1, INIT ''first'' [spawn_record ''first'' 2])]"
  by (simp add: on_connection_def server_empty_def spawn_record_def Let_def
        broadcastToMap_def)

text \<open>
  C1, amended. On a new connection (a socket not yet in the registry) the server adds
  the new record at spawn map 79 and replies on the new socket, first of all, with an
  INIT whose players list is exactly the records then sharing map 79 in registry order,
  the connecting player's own record included as the last entry; it then sends
  PLAYER_JOIN for the new record to the other open connections on map 79. In
  particular the first connection on its spawn map receives an INIT with one entry
  (itself), and a second connection to the same map receives an INIT with two entries
  (the first player, then itself).
\<close>

theorem init_snapshot_with_self:
  assumes "map_get (players s) ws = None"
  shows "on_connection s ws playerId spriteId0 =
     (s\<lparr> players := players s @ [(ws, spawn_record playerId spriteId0)] \<rparr>,
      (ws, INIT playerId (map snd (on_map s 79) @ [spawn_record playerId spriteId0]))
      # map (\<lambda>(w, q). (w, PLAYER_JOIN (spawn_record playerId spriteId0)))
          (open_others_on_map s ws 79))"
proof -
  have upd: "map_set (players s) ws (spawn_record playerId spriteId0)
             = players s @ [(ws, spawn_record playerId spriteId0)]"
    using assms by (rule map_set_fresh)
  have snap: "filter (\<lambda>p. mapId p = 79) (map snd (players s)) = map snd (on_map s 79)"
    by (simp add: on_map_def filter_map comp_def case_prod_unfold)
  have others:
    "open_others_on_map (s\<lparr> players := players s @ [(ws, spawn_record playerId spriteId0)] \<rparr>) ws 79
     = open_others_on_map s ws 79"
    by (simp add: open_others_on_map_def others_on_map_def on_map_def)
  show ?thesis
    unfolding on_connection_def
    using upd snap others
    by (simp add: Let_def spawn_record_def broadcastToMap_others)
qed

theorem init_snapshot_with_self_witness:
  "map_get (players server_empty) 1 = None \<and>
   snd (on_connection server_empty 1 ''first'' 2)
     = [(1, INIT ''first'' [spawn_record ''first'' 2])] \<and>
   map_get (players server_one) 2 = None \<and>
   snd (on_connection server_one 2 ''second'' 4)
     = [(2, INIT ''second'' [spawn_record ''first'' 2, spawn_record ''second'' 4]),
        (1, PLAYER_JOIN (spawn_record ''second'' 4))]"
proof -
  have f1: "map_get (players server_empty) 1 = None"
    by (simp add: server_empty_def map_get_def)
  have f2: "map_get (players server_one) 2 = None"
    by (simp add: server_one_eq map_get_def)
  from init_snapshot_with_self [OF f1, of "''first''" 2]
  have a: "snd (on_connection server_empty 1 ''first'' 2)
             = [(1, INIT ''first'' [spawn_record ''first'' 2])]"
    by (simp add: server_empty_def on_map_def open_others_on_map_def others_on_map_def)
  from init_snapshot_with_self [OF f2, of "''second''" 4]
  have b: "snd (on_connection server_one 2 ''second'' 4)
     = [(2, INIT ''second'' [spawn_record ''first'' 2, spawn_record ''second'' 4]),
        (1, PLAYER_JOIN (spawn_record ''second'' 4))]"
    by (simp add: server_one_eq on_map_def open_others_on_map_def others_on_map_def
          spawn_record_def)
  from f1 a f2 b show ?thesis by blast
qed

text \<open>
  C2, as the specification states it, fails: in the registry of scenario A the
  connection B has its record on map 79 while its socket is closing, and when A moves
  from map 79 to map 5 no PLAYER_LEAVE is sent to B.
\<close>

theorem map_transition_counterexample:
  "map_get (players server_abc) 2 = Some (spawn_record ''B'' 1) \<and>
   mapId (spawn_record ''B'' 1) = 79 \<and>
   (2, PLAYER_LEAVE ''A'') \<notin> set (snd (on_message server_abc 1 ''A'' (MAP_TRANSITION 79 5 3 4)))"
  by (simp add: server_abc_def spawn_record_def map_get_def on_message_def Let_def
        broadcastToMap_def)

text \<open>
  C2, amended. For a MAP_TRANSITION message from a connected player P (socket \<open>ws\<close>,
  record \<open>p\<close>) going from map F to map T, the server leaves P's record replaced by the
  one with the new position, map T and the motion flag cleared, every other record
  untouched, and makes exactly these sends, in this order: (1) PLAYER_LEAVE(P) to every
  other connection whose socket is open and whose record is on map F; (3) PLAYER_JOIN
  with P's updated record to every other connection whose socket is open and whose
  record is on map T; (4) to P alone, one PLAYER_JOIN per other occupant of map T,
  carrying that occupant's record (none if T has no other occupant). Every PLAYER_LEAVE
  thus precedes every PLAYER_JOIN.
\<close>

theorem map_transition_handshake:
  assumes "registry_ok s" and "map_get (players s) ws = Some p"
  shows "on_message s ws playerId (MAP_TRANSITION fromMap toMap x0 y0) =
     (s\<lparr> players := replace_record (players s) ws
                         (p\<lparr> p_x := x0, p_y := y0, mapId := toMap, p_isMoving := False \<rparr>) \<rparr>,
      map (\<lambda>(w, q). (w, PLAYER_LEAVE playerId)) (open_others_on_map s ws fromMap)
      @ map (\<lambda>(w, q). (w, PLAYER_JOIN (p\<lparr> p_x := x0, p_y := y0, mapId := toMap,
                                           p_isMoving := False \<rparr>)))
          (open_others_on_map s ws toMap)
      @ map (\<lambda>(w, q). (ws, PLAYER_JOIN q)) (others_on_map s ws toMap))"
proof -
  let ?p' = "p\<lparr> p_x := x0, p_y := y0, mapId := toMap, p_isMoving := False \<rparr>"
  have upd: "map_set (players s) ws ?p' = replace_record (players s) ws ?p'"
    using assms unfolding registry_ok_def by (rule map_set_present)
  have bf: "map (\<lambda>otherPlayer. (ws, PLAYER_JOIN otherPlayer))
              (map snd (filter (\<lambda>(otherWs, otherPlayer). mapId otherPlayer = toMap \<and> otherWs \<noteq> ws)
                          (replace_record (players s) ws ?p')))
            = map (\<lambda>(w, q). (ws, PLAYER_JOIN q)) (others_on_map s ws toMap)"
    unfolding others_on_map_def on_map_def
    by (simp only: backfill_filter others_replace_record map_snd_case)
  have cp: "\<lparr> p_id = p_id p, p_x = x0, p_y = y0, p_direction = p_direction p,
               p_isMoving = False, spriteId = spriteId p, mapId = toMap \<rparr> = ?p'"
    by (cases p) simp
  show ?thesis
    unfolding on_message_def
    using assms(2)
    by (simp add: Let_def upd bf cp broadcastToMap_others open_others_on_map_replace
          del: map_map)
qed

theorem map_transition_handshake_witness:
  "registry_ok server_abc_open \<and>
   map_get (players server_abc_open) 1 = Some (spawn_record ''A'' 0) \<and>
   snd (on_message server_abc_open 1 ''A'' (MAP_TRANSITION 79 5 3 4))
     = [(2, PLAYER_LEAVE ''A''),
        (3, PLAYER_JOIN ((spawn_record ''A'' 0)\<lparr> p_x := 3, p_y := 4, mapId := 5 \<rparr>)),
        (1, PLAYER_JOIN ((spawn_record ''C'' 2)\<lparr> mapId := 5 \<rparr>))]"
proof -
  have ok: "registry_ok server_abc_open"
    by (simp add: registry_ok_def server_abc_open_def server_abc_def)
  have a: "map_get (players server_abc_open) 1 = Some (spawn_record ''A'' 0)"
    by (simp add: server_abc_open_def server_abc_def map_get_def)
  from map_transition_handshake [OF ok a, of "''A''" 79 5 3 4]
  have "snd (on_message server_abc_open 1 ''A'' (MAP_TRANSITION 79 5 3 4))
     = [(2, PLAYER_LEAVE ''A''),
        (3, PLAYER_JOIN ((spawn_record ''A'' 0)\<lparr> p_x := 3, p_y := 4, mapId := 5 \<rparr>)),
        (1, PLAYER_JOIN ((spawn_record ''C'' 2)\<lparr> mapId := 5 \<rparr>))]"
    by (simp add: server_abc_open_def server_abc_def spawn_record_def open_others_on_map_def
          others_on_map_def on_map_def)
  with ok a show ?thesis by blast
qed

text \<open>
  C3, as the specification states it, fails: in the registry of scenario A the
  connection B has its record on map 79, the map of A's record, while its socket is
  closing, and the MOVE of scenario A from A makes the server send nothing at all, so B
  is sent no PLAYER_MOVE.
\<close>

theorem move_rebroadcast_counterexample:
  "map_get (players server_abc) 2 = Some (spawn_record ''B'' 1) \<and>
   mapId (spawn_record ''B'' 1) = 79 \<and>
   snd (on_message server_abc 1 ''A'' (MOVE 5 5 DirDown True (Some 79))) = []"
  by (simp add: server_abc_def spawn_record_def map_get_def on_message_def Let_def
        broadcastToMap_def)

text \<open>
  C3, amended. For a MOVE message from a connected player A (socket \<open>ws\<close>, record
  \<open>p\<close>), the server replaces A's record by the one with the message's position,
  direction and motion flag, and with the message's mapId when it carries one, every
  other record untouched; and it then sends a PLAYER_MOVE carrying A's id and the
  updated values exactly to the other connections whose socket is open and whose
  record's mapId equals the mapId of A's updated record, one send each in registry
  order. A itself, every connection on another map and every connection whose socket is
  not open is sent nothing.
\<close>

theorem move_rebroadcast:
  assumes "registry_ok s" and "map_get (players s) ws = Some p"
  shows "on_message s ws playerId (MOVE x0 y0 d m mapIdOpt) =
     (s\<lparr> players := replace_record (players s) ws
                         (p\<lparr> p_x := x0, p_y := y0, p_direction := d, p_isMoving := m,
                             mapId := (case mapIdOpt of None \<Rightarrow> mapId p | Some newMap \<Rightarrow> newMap) \<rparr>) \<rparr>,
      map (\<lambda>(w, q). (w, PLAYER_MOVE playerId x0 y0 d m
                            (case mapIdOpt of None \<Rightarrow> mapId p | Some newMap \<Rightarrow> newMap)))
        (open_others_on_map s ws (case mapIdOpt of None \<Rightarrow> mapId p | Some newMap \<Rightarrow> newMap)))"
proof -
  let ?p2 = "p\<lparr> p_x := x0, p_y := y0, p_direction := d, p_isMoving := m,
                mapId := (case mapIdOpt of None \<Rightarrow> mapId p | Some newMap \<Rightarrow> newMap) \<rparr>"
  have upd: "map_set (players s) ws ?p2 = replace_record (players s) ws ?p2"
    using assms unfolding registry_ok_def by (rule map_set_present)
  show ?thesis
  proof (cases mapIdOpt)
    case None
    then show ?thesis
      unfolding on_message_def using assms(2) upd
      by (simp add: Let_def broadcastToMap_others open_others_on_map_replace)
  next
    case (Some newMap)
    then show ?thesis
      unfolding on_message_def using assms(2) upd
      by (simp add: Let_def broadcastToMap_others open_others_on_map_replace)
  qed
qed

theorem move_rebroadcast_witness:
  "registry_ok server_abc_open \<and>
   map_get (players server_abc_open) 1 = Some (spawn_record ''A'' 0) \<and>
   snd (on_message server_abc_open 1 ''A'' (MOVE 5 5 DirDown True (Some 79)))
     = [(2, PLAYER_MOVE ''A'' 5 5 DirDown True 79)] \<and>
   snd (on_message server_abc_open 1 ''A'' (MOVE 5 5 DirDown True None))
     = [(2, PLAYER_MOVE ''A'' 5 5 DirDown True 79)]"
proof -
  have ok: "registry_ok server_abc_open"
    by (simp add: registry_ok_def server_abc_open_def server_abc_def)
  have a: "map_get (players server_abc_open) 1 = Some (spawn_record ''A'' 0)"
    by (simp add: server_abc_open_def server_abc_def map_get_def)
  from move_rebroadcast [OF ok a, of "''A''" 5 5 DirDown True "Some 79"]
  have b: "snd (on_message server_abc_open 1 ''A'' (MOVE 5 5 DirDown True (Some 79)))
     = [(2, PLAYER_MOVE ''A'' 5 5 DirDown True 79)]"
    by (simp add: server_abc_open_def server_abc_def spawn_record_def open_others_on_map_def
          others_on_map_def on_map_def)
  from move_rebroadcast [OF ok a, of "''A''" 5 5 DirDown True None]
  have c: "snd (on_message server_abc_open 1 ''A'' (MOVE 5 5 DirDown True None))
     = [(2, PLAYER_MOVE ''A'' 5 5 DirDown True 79)]"
    by (simp add: server_abc_open_def server_abc_def spawn_record_def open_others_on_map_def
          others_on_map_def on_map_def)
  from ok a b c show ?thesis by blast
qed

end
